theory Spec2Isabelle
  imports Complex_Main
begin

section \<open>JavaScript numbers\<close>

text \<open>
  The payslip calculator computes with JavaScript numbers. A number is modelled as one of
  the three special values of the language or a finite value. Finite values are exact
  reals: rounding to 64-bit precision, overflow to an infinity and the sign of zero are
  not modelled. \<open>NaN\<close> is what \<open>parseFloat\<close> returns on a string with no
  numeric prefix and what arithmetic returns on an undefined operation.
\<close>

datatype number = NaN | NegInf | Fin real | PosInf

text \<open>The value of \<open>\<plusminus>Infinity * b\<close> for a finite \<open>b\<close>, up to the sign of the infinity.\<close>

definition infTimes :: "bool \<Rightarrow> real \<Rightarrow> number" where
  "infTimes pos b =
     (if b = 0 then NaN else if (0 < b) = pos then PosInf else NegInf)"

fun jsNeg :: "number \<Rightarrow> number" where
  "jsNeg NaN = NaN"
| "jsNeg NegInf = PosInf"
| "jsNeg (Fin a) = Fin (- a)"
| "jsNeg PosInf = NegInf"

fun jsAdd :: "number \<Rightarrow> number \<Rightarrow> number" where
  "jsAdd (Fin a) (Fin b) = Fin (a + b)"
| "jsAdd NaN y = NaN"
| "jsAdd x NaN = NaN"
| "jsAdd PosInf NegInf = NaN"
| "jsAdd NegInf PosInf = NaN"
| "jsAdd PosInf y = PosInf"
| "jsAdd NegInf y = NegInf"
| "jsAdd x PosInf = PosInf"
| "jsAdd x NegInf = NegInf"

definition jsSub :: "number \<Rightarrow> number \<Rightarrow> number" where
  "jsSub x y = jsAdd x (jsNeg y)"

fun jsMul :: "number \<Rightarrow> number \<Rightarrow> number" where
  "jsMul (Fin a) (Fin b) = Fin (a * b)"
| "jsMul NaN y = NaN"
| "jsMul x NaN = NaN"
| "jsMul PosInf (Fin b) = infTimes True b"
| "jsMul NegInf (Fin b) = infTimes False b"
| "jsMul (Fin a) PosInf = infTimes True a"
| "jsMul (Fin a) NegInf = infTimes False a"
| "jsMul PosInf PosInf = PosInf"
| "jsMul NegInf NegInf = PosInf"
| "jsMul PosInf NegInf = NegInf"
| "jsMul NegInf PosInf = NegInf"

text \<open>
  Division. A finite zero divisor is read as \<open>+0\<close>; no division of the calculator has a
  divisor that is zero in this model (the divisors are non-zero constants or products of
  values that passed the \<open>||\<close> default).
\<close>

fun jsDiv :: "number \<Rightarrow> number \<Rightarrow> number" where
  "jsDiv (Fin a) (Fin b) = (if b = 0 then infTimes True a else Fin (a / b))"
| "jsDiv NaN y = NaN"
| "jsDiv x NaN = NaN"
| "jsDiv (Fin a) PosInf = Fin 0"
| "jsDiv (Fin a) NegInf = Fin 0"
| "jsDiv PosInf (Fin b) = (if 0 \<le> b then PosInf else NegInf)"
| "jsDiv NegInf (Fin b) = (if 0 \<le> b then NegInf else PosInf)"
| "jsDiv PosInf y = NaN"
| "jsDiv NegInf y = NaN"

text \<open>The relational operators: every comparison with \<open>NaN\<close> is false.\<close>

fun jsLt :: "number \<Rightarrow> number \<Rightarrow> bool" where
  "jsLt (Fin a) (Fin b) = (a < b)"
| "jsLt NaN y = False"
| "jsLt x NaN = False"
| "jsLt PosInf y = False"
| "jsLt x NegInf = False"
| "jsLt NegInf y = True"
| "jsLt x PosInf = True"

definition jsLe :: "number \<Rightarrow> number \<Rightarrow> bool" where
  "jsLe x y = (x \<noteq> NaN \<and> y \<noteq> NaN \<and> \<not> jsLt y x)"

definition jsGt :: "number \<Rightarrow> number \<Rightarrow> bool" where
  "jsGt x y = jsLt y x"

definition jsGe :: "number \<Rightarrow> number \<Rightarrow> bool" where
  "jsGe x y = jsLe y x"

text \<open>\<open>Math.floor\<close> and \<open>Math.min\<close> (of two arguments).\<close>

fun Math_floor :: "number \<Rightarrow> number" where
  "Math_floor (Fin a) = Fin (of_int \<lfloor>a\<rfloor>)"
| "Math_floor x = x"

definition Math_min :: "number \<Rightarrow> number \<Rightarrow> number" where
  "Math_min x y = (if x = NaN \<or> y = NaN then NaN else if jsLt y x then y else x)"

text \<open>
  Truthiness of a number, and \<open>x || d\<close> on numbers: \<open>NaN\<close> and zero are falsy, so the
  default \<open>d\<close> replaces both.
\<close>

definition truthy :: "number \<Rightarrow> bool" where
  "truthy x = (x \<noteq> NaN \<and> x \<noteq> Fin 0)"

definition jsOr :: "number \<Rightarrow> number \<Rightarrow> number" where
  "jsOr x d = (if truthy x then x else d)"

text \<open>An \<open>undefined\<close> operand of an arithmetic operator is converted to \<open>NaN\<close>.\<close>

definition toNumber :: "number option \<Rightarrow> number" where
  "toNumber v = (case v of None \<Rightarrow> NaN | Some x \<Rightarrow> x)"

section \<open>Reference tables\<close>

text \<open>
  The tables are object literals keyed by the tax year string. A key that is not one of
  the literal's own keys is looked up as \<open>undefined\<close> (\<open>None\<close>); properties inherited
  from the object prototype are not modelled.
\<close>

record taxBracket =
  minB :: number
  maxB :: number
  rate :: number
  offset :: number

record mlsThreshold =
  minT :: number
  maxT :: number
  rateT :: number

record levyThresholds =
  lower :: number
  upper :: number

definition taxBrackets :: "string \<Rightarrow> taxBracket list option" where
  "taxBrackets year =
     (if year = ''2024-25'' then Some
        [\<lparr>minB = Fin 0, maxB = Fin 18200, rate = Fin 0, offset = Fin 0\<rparr>,
         \<lparr>minB = Fin 18201, maxB = Fin 45000, rate = Fin 0.19, offset = Fin 0\<rparr>,
         \<lparr>minB = Fin 45001, maxB = Fin 120000, rate = Fin 0.325, offset = Fin 5092\<rparr>,
         \<lparr>minB = Fin 120001, maxB = Fin 180000, rate = Fin 0.37, offset = Fin 29467\<rparr>,
         \<lparr>minB = Fin 180001, maxB = PosInf, rate = Fin 0.45, offset = Fin 51667\<rparr>]
      else if year = ''2025-26'' then Some
        [\<lparr>minB = Fin 0, maxB = Fin 18200, rate = Fin 0, offset = Fin 0\<rparr>,
         \<lparr>minB = Fin 18201, maxB = Fin 45000, rate = Fin 0.16, offset = Fin 0\<rparr>,
         \<lparr>minB = Fin 45001, maxB = Fin 135000, rate = Fin 0.30, offset = Fin 4288\<rparr>,
         \<lparr>minB = Fin 135001, maxB = Fin 190000, rate = Fin 0.37, offset = Fin 31288\<rparr>,
         \<lparr>minB = Fin 190001, maxB = PosInf, rate = Fin 0.45, offset = Fin 51638\<rparr>]
      else None)"

text \<open>The table \<open>medicareLevy\<close> of the source (the result record has a field of that name).\<close>

definition medicareLevyRate :: "string \<Rightarrow> number option" where
  "medicareLevyRate year =
     (if year = ''2024-25'' then Some (Fin 0.02)
      else if year = ''2025-26'' then Some (Fin 0.02)
      else None)"

definition superRates :: "string \<Rightarrow> number option" where
  "superRates year =
     (if year = ''2024-25'' then Some (Fin 0.115)
      else if year = ''2025-26'' then Some (Fin 0.12)
      else None)"

definition medicareLevyThresholds :: "string \<Rightarrow> levyThresholds option" where
  "medicareLevyThresholds year =
     (if year = ''2024-25'' then Some \<lparr>lower = Fin 27222, upper = Fin 34027\<rparr>
      else if year = ''2025-26'' then Some \<lparr>lower = Fin 27222, upper = Fin 34027\<rparr>
      else None)"

definition mlsThresholds :: "string \<Rightarrow> mlsThreshold list option" where
  "mlsThresholds year =
     (if year = ''2024-25'' then Some
        [\<lparr>minT = Fin 0, maxT = Fin 97000, rateT = Fin 0\<rparr>,
         \<lparr>minT = Fin 97001, maxT = Fin 113000, rateT = Fin 0.01\<rparr>,
         \<lparr>minT = Fin 113001, maxT = Fin 151000, rateT = Fin 0.0125\<rparr>,
         \<lparr>minT = Fin 151001, maxT = PosInf, rateT = Fin 0.015\<rparr>]
      else if year = ''2025-26'' then Some
        [\<lparr>minT = Fin 0, maxT = Fin 101000, rateT = Fin 0\<rparr>,
         \<lparr>minT = Fin 101001, maxT = Fin 118000, rateT = Fin 0.01\<rparr>,
         \<lparr>minT = Fin 118001, maxT = Fin 158000, rateT = Fin 0.0125\<rparr>,
         \<lparr>minT = Fin 158001, maxT = PosInf, rateT = Fin 0.015\<rparr>]
      else None)"

section \<open>Tax, Medicare levy and surcharge\<close>

text \<open>
  Iterating over \<open>undefined\<close> and reading a property of \<open>undefined\<close> throw a
  \<open>TypeError\<close>: that is what the three functions do on a year outside the tables.
\<close>

datatype error = TypeError

text \<open>
  The loop of \<open>calculateTax\<close>: \<open>tax\<close> starts at 0 and is set by the first bracket
  that contains the income; no later bracket is read.
\<close>

fun taxLoop :: "number \<Rightarrow> taxBracket list \<Rightarrow> number" where
  "taxLoop taxableIncome [] = Fin 0"
| "taxLoop taxableIncome (bracket # brackets) =
     (if jsGe taxableIncome (minB bracket) \<and> jsLe taxableIncome (maxB bracket)
      then jsAdd (offset bracket)
             (jsMul (jsAdd (jsSub taxableIncome (minB bracket)) (Fin 1)) (rate bracket))
      else taxLoop taxableIncome brackets)"

definition calculateTax :: "number \<Rightarrow> string \<Rightarrow> error + number" where
  "calculateTax taxableIncome year =
     (case taxBrackets year of
        None \<Rightarrow> Inl TypeError
      | Some brackets \<Rightarrow> Inr (taxLoop taxableIncome brackets))"

definition calculateMedicareLevy :: "number \<Rightarrow> string \<Rightarrow> error + number" where
  "calculateMedicareLevy taxableIncome year =
     (let rate = toNumber (medicareLevyRate year) in
      case medicareLevyThresholds year of
        None \<Rightarrow> Inl TypeError
      | Some thresholds \<Rightarrow>
          if jsLe taxableIncome (lower thresholds) then Inr (Fin 0)
          else if jsLe taxableIncome (upper thresholds) then
            (let reduction = jsDiv (jsSub (upper thresholds) taxableIncome)
                                   (jsSub (upper thresholds) (lower thresholds))
             in Inr (jsMul (jsMul taxableIncome rate) (jsSub (Fin 1) reduction)))
          else Inr (jsMul taxableIncome rate))"

fun mlsLoop :: "number \<Rightarrow> mlsThreshold list \<Rightarrow> number" where
  "mlsLoop taxableIncome [] = Fin 0"
| "mlsLoop taxableIncome (threshold # thresholds) =
     (if jsGe taxableIncome (minT threshold) \<and> jsLe taxableIncome (maxT threshold)
      then jsMul taxableIncome (rateT threshold)
      else mlsLoop taxableIncome thresholds)"

definition calculateMedicareLevySurcharge :: "number \<Rightarrow> string \<Rightarrow> bool \<Rightarrow> error + number" where
  "calculateMedicareLevySurcharge taxableIncome year hasInsurance =
     (if hasInsurance then Inr (Fin 0)
      else case mlsThresholds year of
        None \<Rightarrow> Inl TypeError
      | Some thresholds \<Rightarrow> Inr (mlsLoop taxableIncome thresholds))"

text \<open>
  The two frequency lookups: \<open>periods[frequency] || 26.09\<close> and
  \<open>days[frequency] || 14\<close>.
\<close>

definition getPayPeriodsPerYear :: "string \<Rightarrow> number" where
  "getPayPeriodsPerYear frequency =
     (let periods = (\<lambda>k. if k = ''weekly'' then Some (Fin 52.18)
                         else if k = ''fortnightly'' then Some (Fin 26.09)
                         else if k = ''monthly'' then Some (Fin 12)
                         else if k = ''quarterly'' then Some (Fin 4)
                         else None)
      in case periods frequency of None \<Rightarrow> Fin 26.09 | Some p \<Rightarrow> jsOr p (Fin 26.09))"

definition getPayPeriodDays :: "string \<Rightarrow> number" where
  "getPayPeriodDays frequency =
     (let days = (\<lambda>k. if k = ''weekly'' then Some (Fin 7)
                      else if k = ''fortnightly'' then Some (Fin 14)
                      else if k = ''monthly'' then Some (Fin 30.44)
                      else if k = ''quarterly'' then Some (Fin 91.33)
                      else None)
      in case days frequency of None \<Rightarrow> Fin 14 | Some d \<Rightarrow> jsOr d (Fin 14))"

section \<open>\<open>parseFloat\<close>\<close>

text \<open>
  \<open>parseFloat\<close> skips leading white space and reads the longest prefix that is a decimal
  literal: an optional sign, then \<open>Infinity\<close> or digits with an optional fraction and
  an optional exponent. With no such prefix the result is \<open>NaN\<close>. Strings are byte
  strings here, so only the ASCII white space characters are skipped.
\<close>

definition isWhiteSpace :: "char \<Rightarrow> bool" where
  "isWhiteSpace c = ((of_char c :: nat) \<in> {9, 10, 11, 12, 13, 32})"

definition isDigit :: "char \<Rightarrow> bool" where
  "isDigit c = (48 \<le> (of_char c :: nat) \<and> (of_char c :: nat) \<le> 57)"

definition digitsValue :: "string \<Rightarrow> nat" where
  "digitsValue ds = foldl (\<lambda>acc c. 10 * acc + (of_char c - 48)) 0 ds"

text \<open>
  The exponent part \<open>e\<close>, \<open>e+\<close> or \<open>e-\<close> followed by at least one digit; without a digit
  the prefix ends before the \<open>e\<close>. The result is the factor's sign and magnitude.
\<close>

definition exponentPart :: "string \<Rightarrow> (bool \<times> nat)" where
  "exponentPart s =
     (case s of
        [] \<Rightarrow> (False, 0)
      | c # r \<Rightarrow>
          if c = CHR ''e'' \<or> c = CHR ''E'' then
            (case r of
               [] \<Rightarrow> (False, 0)
             | d # r' \<Rightarrow>
                 if d = CHR ''-'' \<and> takeWhile isDigit r' \<noteq> []
                   then (True, digitsValue (takeWhile isDigit r'))
                 else if d = CHR ''+'' \<and> takeWhile isDigit r' \<noteq> []
                   then (False, digitsValue (takeWhile isDigit r'))
                 else (False, digitsValue (takeWhile isDigit r)))
          else (False, 0))"

definition unsignedDecimal :: "string \<Rightarrow> real option" where
  "unsignedDecimal s =
     (let intDigits = takeWhile isDigit s;
          afterInt = dropWhile isDigit s;
          fracDigits = (case afterInt of
                          [] \<Rightarrow> []
                        | c # r \<Rightarrow> if c = CHR ''.'' then takeWhile isDigit r else []);
          afterFrac = (case afterInt of
                         [] \<Rightarrow> []
                       | c # r \<Rightarrow> if c = CHR ''.'' then dropWhile isDigit r else afterInt)
      in if intDigits = [] \<and> fracDigits = [] then None
         else
           (let mantissa = real (digitsValue (intDigits @ fracDigits)) / 10 ^ length fracDigits;
                (negative, e) = exponentPart afterFrac
            in Some (if negative then mantissa / 10 ^ e else mantissa * 10 ^ e)))"

definition signedDecimal :: "bool \<Rightarrow> string \<Rightarrow> number" where
  "signedDecimal negative s =
     (if take 8 s = ''Infinity'' then (if negative then NegInf else PosInf)
      else case unsignedDecimal s of
             None \<Rightarrow> NaN
           | Some v \<Rightarrow> Fin (if negative then - v else v))"

definition parseFloat :: "string \<Rightarrow> number" where
  "parseFloat string =
     (case dropWhile isWhiteSpace string of
        [] \<Rightarrow> NaN
      | c # r \<Rightarrow>
          if c = CHR ''-'' then signedDecimal True r
          else if c = CHR ''+'' then signedDecimal False r
          else signedDecimal False (c # r))"

section \<open>Dates\<close>

text \<open>
  What \<open>Date\<close> does depends on the engine (which strings it parses) and on the local
  time zone (\<open>getFullYear\<close>, \<open>getMonth\<close> and the three-argument constructor are
  local-time operations), and neither is fixed by the source. The date operations the
  calculator calls are therefore a parameter of the model: a host gives, for a type
  \<open>'d\<close> of date objects, the two constructors and the three methods. \<open>getTime\<close> is the
  time value in milliseconds, \<open>NaN\<close> for an invalid date; comparing two dates with
  \<open>>\<close> compares their time values.
\<close>

record 'd host =
  newDate :: "string \<Rightarrow> 'd"
  newDateYMD :: "number \<Rightarrow> number \<Rightarrow> number \<Rightarrow> 'd"
  getFullYear :: "'d \<Rightarrow> number"
  getMonth :: "'d \<Rightarrow> number"
  getTime :: "'d \<Rightarrow> number"

section \<open>The calculator\<close>

record inputState =
  payFrequency :: string
  payDate :: string
  periodEndDate :: string
  annualSalary :: string
  employmentStartDate :: string
  taxYear :: string
  fullTimeHours :: string
  fte :: string
  hasPrivateHealthInsurance :: bool

record ytdTotals =
  ytd_gross :: number
  ytd_tax :: number
  ytd_medicareLevy :: number
  ytd_medicareLevySurcharge :: number
  ytd_totalMedicareCharges :: number
  ytd_net :: number
  ytd_super :: number

record calculationResults =
  grossPay :: number
  taxableIncome :: number
  tax :: number
  medicareLevy :: number
  medicareLevySurcharge :: number
  totalMedicareCharges :: number
  netIncome :: number
  superannuation :: number
  annualLeaveAccrual :: number
  hoursWorked :: number
  hourlyRate :: number
  ytd :: ytdTotals
  periodsPerYear :: number
  payPeriodDays :: number
  periodsToDate :: number
  effectiveAnnualSalary :: number
  fte_res :: number

text \<open>
  The days elapsed from the start of the year-to-date window to the pay date: the
  statements of \<open>calculateResults\<close> from \<open>const payDate\<close> to \<open>const daysDiff\<close>,
  which read nothing but the two date fields. \<open>calculateResults\<close> below binds the
  value at the place where the source computes it.
\<close>

definition daysDiff :: "'d host \<Rightarrow> inputState \<Rightarrow> number" where
  "daysDiff h inputs =
     (let payDate' = newDate h (payDate inputs);
          employmentStart = newDate h (employmentStartDate inputs);
          financialYearStart =
            newDateYMD h
              (jsSub (getFullYear h payDate')
                     (if jsLt (getMonth h payDate') (Fin 6) then Fin 1 else Fin 0))
              (Fin 6) (Fin 1);
          ytdStartDate =
            (if jsGt (getTime h employmentStart) (getTime h financialYearStart)
             then employmentStart else financialYearStart)
      in Math_floor (jsDiv (jsSub (getTime h payDate') (getTime h ytdStartDate))
                           (Fin (1000 * 60 * 60 * 24))))"

text \<open>
  \<open>calculateResults\<close> reads the input state and either returns without touching the
  result state, or replaces it by a new record (\<open>setResults\<close>), or throws. The model
  takes the current result state \<open>results\<close> and returns the next one. Local variables
  that share a name with a field carry a prime.
\<close>

definition calculateResults ::
  "'d host \<Rightarrow> inputState \<Rightarrow> calculationResults option \<Rightarrow> error + calculationResults option" where
  "calculateResults h inputs results =
     (if annualSalary inputs = [] \<or> payDate inputs = [] \<or> periodEndDate inputs = []
         \<or> employmentStartDate inputs = []
      then Inr results
      else
        let annualSalary' = parseFloat (annualSalary inputs);
            fullTimeHours' = jsOr (parseFloat (fullTimeHours inputs)) (Fin 38);
            fte' = jsOr (parseFloat (fte inputs)) (Fin 1.0);
            periodsPerYear' = getPayPeriodsPerYear (payFrequency inputs);
            payPeriodDays' = getPayPeriodDays (payFrequency inputs);
            effectiveAnnualSalary' = jsMul annualSalary' fte';
            grossPay' = jsDiv effectiveAnnualSalary' periodsPerYear'
        in
        case calculateTax effectiveAnnualSalary' (taxYear inputs) of
          Inl e \<Rightarrow> Inl e
        | Inr annualTax \<Rightarrow>
        (let taxPerPeriod = jsDiv annualTax periodsPerYear' in
        (case calculateMedicareLevy effectiveAnnualSalary' (taxYear inputs) of
          Inl e \<Rightarrow> Inl e
        | Inr annualMedicareLevy \<Rightarrow>
        (case calculateMedicareLevySurcharge effectiveAnnualSalary' (taxYear inputs)
               (hasPrivateHealthInsurance inputs) of
          Inl e \<Rightarrow> Inl e
        | Inr annualMedicareLevySurcharge \<Rightarrow>
        (let annualTotalMedicareCharges = jsAdd annualMedicareLevy annualMedicareLevySurcharge;
            medicareLevyPerPeriod = jsDiv annualMedicareLevy periodsPerYear';
            medicareLevySurchargePerPeriod = jsDiv annualMedicareLevySurcharge periodsPerYear';
            totalMedicareChargesPerPeriod = jsDiv annualTotalMedicareCharges periodsPerYear';
            netPay = jsSub (jsSub grossPay' taxPerPeriod) totalMedicareChargesPerPeriod;
            superRate = toNumber (superRates (taxYear inputs));
            superannuation' = jsMul grossPay' superRate;
            hoursPerPeriod = jsDiv (jsMul (jsMul fullTimeHours' fte') payPeriodDays') (Fin 7);
            annualLeaveDaysPerYear = jsMul (Fin 20) fte';
            workingDaysPerYear = Fin 260.87;
            annualLeaveAccrualRate = jsDiv annualLeaveDaysPerYear workingDaysPerYear;
            workingDaysThisPeriod = jsDiv (jsMul payPeriodDays' (Fin 5)) (Fin 7);
            annualLeaveAccrualDays = jsMul workingDaysThisPeriod annualLeaveAccrualRate;
            hoursPerDay = jsDiv fullTimeHours' (Fin 5);
            annualLeaveAccrualHours = jsMul annualLeaveAccrualDays hoursPerDay;
            daysDiff' = daysDiff h inputs;
            yearDays = Fin 365.25;
            ytdProportion = jsDiv daysDiff' yearDays;
            ytdMaxGross = jsMul effectiveAnnualSalary' ytdProportion;
            ytdMaxTax = jsMul annualTax ytdProportion;
            ytdMaxMedicareLevy = jsMul annualMedicareLevy ytdProportion;
            ytdMaxMedicareLevySurcharge = jsMul annualMedicareLevySurcharge ytdProportion;
            ytdMaxTotalMedicareCharges = jsMul annualTotalMedicareCharges ytdProportion;
            ytdMaxNet = jsSub (jsSub ytdMaxGross ytdMaxTax) ytdMaxTotalMedicareCharges;
            ytdMaxSuper = jsMul ytdMaxGross superRate;
            periodsToDate' = jsAdd (Math_floor (jsDiv daysDiff' payPeriodDays')) (Fin 1);
            ytdGross = Math_min (jsMul grossPay' periodsToDate') ytdMaxGross;
            ytdTax = Math_min (jsMul taxPerPeriod periodsToDate') ytdMaxTax;
            ytdMedicareLevy =
              Math_min (jsMul medicareLevyPerPeriod periodsToDate') ytdMaxMedicareLevy;
            ytdMedicareLevySurcharge =
              Math_min (jsMul medicareLevySurchargePerPeriod periodsToDate')
                       ytdMaxMedicareLevySurcharge;
            ytdTotalMedicareCharges =
              Math_min (jsMul totalMedicareChargesPerPeriod periodsToDate')
                       ytdMaxTotalMedicareCharges;
            ytdNet = Math_min (jsMul netPay periodsToDate') ytdMaxNet;
            ytdSuper = Math_min (jsMul superannuation' periodsToDate') ytdMaxSuper;
            hourlyRate' = jsDiv effectiveAnnualSalary' (jsMul (jsMul (Fin 52.18) fullTimeHours') fte')
        in Inr (Some
          \<lparr>grossPay = grossPay',
           taxableIncome = grossPay',
           tax = taxPerPeriod,
           medicareLevy = medicareLevyPerPeriod,
           medicareLevySurcharge = medicareLevySurchargePerPeriod,
           totalMedicareCharges = totalMedicareChargesPerPeriod,
           netIncome = netPay,
           superannuation = superannuation',
           annualLeaveAccrual = annualLeaveAccrualHours,
           hoursWorked = hoursPerPeriod,
           hourlyRate = hourlyRate',
           ytd = \<lparr>ytd_gross = ytdGross,
                  ytd_tax = ytdTax,
                  ytd_medicareLevy = ytdMedicareLevy,
                  ytd_medicareLevySurcharge = ytdMedicareLevySurcharge,
                  ytd_totalMedicareCharges = ytdTotalMedicareCharges,
                  ytd_net = ytdNet,
                  ytd_super = ytdSuper\<rparr>,
           periodsPerYear = periodsPerYear',
           payPeriodDays = payPeriodDays',
           periodsToDate = periodsToDate',
           effectiveAnnualSalary = effectiveAnnualSalary',
           fte_res = fte'\<rparr>))))))"

section \<open>A host in the UTC time zone\<close>

text \<open>
  A concrete host, on which the calculator can be run: the local time zone is UTC, and the
  strings that parse are the calendar dates \<open>YYYY-MM-DD\<close> (the form a date input
  control yields). A date object is a calendar date or the invalid date. The
  three-argument constructor takes a month index from 0 to 11 and a day of that month
  (the calculator passes 6 and 1); it does not normalise values outside these ranges.
\<close>

datatype utcDate = InvalidDate | Civil int int int

definition isLeapYear :: "int \<Rightarrow> bool" where
  "isLeapYear y = (y mod 4 = 0 \<and> (y mod 400 = 0 \<or> y mod 100 \<noteq> 0))"

definition daysInMonth :: "int \<Rightarrow> int \<Rightarrow> int" where
  "daysInMonth y m =
     (if m = 2 then (if isLeapYear y then 29 else 28)
      else if m = 4 \<or> m = 6 \<or> m = 9 \<or> m = 11 then 30 else 31)"

definition leapYearsUpTo :: "int \<Rightarrow> int" where
  "leapYearsUpTo y = y div 4 - y div 100 + y div 400"

definition daysBeforeMonth :: "int \<Rightarrow> int \<Rightarrow> int" where
  "daysBeforeMonth y m =
     [0, 31, 59, 90, 120, 151, 181, 212, 243, 273, 304, 334] ! nat (m - 1)
       + (if 2 < m \<and> isLeapYear y then 1 else 0)"

text \<open>Days from 1 January 1970 to the given date (month from 1 to 12).\<close>

definition daysFromCivil :: "int \<Rightarrow> int \<Rightarrow> int \<Rightarrow> int" where
  "daysFromCivil y m d =
     365 * (y - 1970) + (leapYearsUpTo (y - 1) - leapYearsUpTo 1969)
       + daysBeforeMonth y m + (d - 1)"

definition mkCivil :: "int \<Rightarrow> int \<Rightarrow> int \<Rightarrow> utcDate" where
  "mkCivil y m d =
     (if 1 \<le> m \<and> m \<le> 12 \<and> 1 \<le> d \<and> d \<le> daysInMonth y m
         \<and> \<bar>daysFromCivil y m d\<bar> \<le> 100000000
      then Civil y m d else InvalidDate)"

definition utc_newDate :: "string \<Rightarrow> utcDate" where
  "utc_newDate s =
     (if length s = 10 \<and> s ! 4 = CHR ''-'' \<and> s ! 7 = CHR ''-''
         \<and> list_all isDigit (take 4 s) \<and> list_all isDigit (take 2 (drop 5 s))
         \<and> list_all isDigit (drop 8 s)
      then mkCivil (int (digitsValue (take 4 s))) (int (digitsValue (take 2 (drop 5 s))))
             (int (digitsValue (drop 8 s)))
      else InvalidDate)"

definition toInteger :: "real \<Rightarrow> int" where
  "toInteger r = (if r < 0 then - \<lfloor>- r\<rfloor> else \<lfloor>r\<rfloor>)"

definition utc_newDateYMD :: "number \<Rightarrow> number \<Rightarrow> number \<Rightarrow> utcDate" where
  "utc_newDateYMD year monthIndex day =
     (case (year, monthIndex, day) of
        (Fin y, Fin m, Fin d) \<Rightarrow>
          (let yi = toInteger y;
               fullYear = (if 0 \<le> yi \<and> yi \<le> 99 then 1900 + yi else yi)
           in mkCivil fullYear (toInteger m + 1) (toInteger d))
      | _ \<Rightarrow> InvalidDate)"

fun utc_getFullYear :: "utcDate \<Rightarrow> number" where
  "utc_getFullYear InvalidDate = NaN"
| "utc_getFullYear (Civil y m d) = Fin (of_int y)"

fun utc_getMonth :: "utcDate \<Rightarrow> number" where
  "utc_getMonth InvalidDate = NaN"
| "utc_getMonth (Civil y m d) = Fin (of_int (m - 1))"

fun utc_getTime :: "utcDate \<Rightarrow> number" where
  "utc_getTime InvalidDate = NaN"
| "utc_getTime (Civil y m d) = Fin (of_int (daysFromCivil y m d * 86400000))"

definition utcHost :: "utcDate host" where
  "utcHost = \<lparr>newDate = utc_newDate, newDateYMD = utc_newDateYMD,
              getFullYear = utc_getFullYear, getMonth = utc_getMonth,
              getTime = utc_getTime\<rparr>"

text \<open>Reading one field of the result state after a run; \<open>None\<close> when there is none.\<close>

definition field ::
  "(calculationResults \<Rightarrow> 'a) \<Rightarrow> error + calculationResults option \<Rightarrow> 'a option" where
  "field f out = (case out of Inr (Some r) \<Rightarrow> Some (f r) | _ \<Rightarrow> None)"

section \<open>Complete and valid input\<close>

text \<open>
  The predicates the properties below are stated with. An input is complete when the four
  required fields are non-empty strings (the guard of \<open>calculateResults\<close>). It is valid
  when moreover the salary parses to a finite number, the hours and the FTE are finite
  after their defaults, and the tax year is one of the two keys of the tables. Its dates
  are valid on a host when the pay date, the employment start date and the start of the
  financial year computed from the pay date are valid dates there.
\<close>

fun isFinite :: "number \<Rightarrow> bool" where
  "isFinite (Fin a) = True"
| "isFinite x = False"

definition completeInput :: "inputState \<Rightarrow> bool" where
  "completeInput inputs =
     (annualSalary inputs \<noteq> [] \<and> payDate inputs \<noteq> [] \<and> periodEndDate inputs \<noteq> []
      \<and> employmentStartDate inputs \<noteq> [])"

definition knownTaxYear :: "string \<Rightarrow> bool" where
  "knownTaxYear year = (year = ''2024-25'' \<or> year = ''2025-26'')"

definition validInput :: "inputState \<Rightarrow> bool" where
  "validInput inputs =
     (completeInput inputs
      \<and> isFinite (parseFloat (annualSalary inputs))
      \<and> isFinite (jsOr (parseFloat (fullTimeHours inputs)) (Fin 38))
      \<and> isFinite (jsOr (parseFloat (fte inputs)) (Fin 1.0))
      \<and> knownTaxYear (taxYear inputs))"

definition validDates :: "'d host \<Rightarrow> inputState \<Rightarrow> bool" where
  "validDates h inputs =
     (let payDate' = newDate h (payDate inputs);
          financialYearStart =
            newDateYMD h
              (jsSub (getFullYear h payDate')
                     (if jsLt (getMonth h payDate') (Fin 6) then Fin 1 else Fin 0))
              (Fin 6) (Fin 1)
      in isFinite (getTime h payDate')
         \<and> isFinite (getTime h (newDate h (employmentStartDate inputs)))
         \<and> isFinite (getTime h financialYearStart))"

text \<open>
  The scenario of the specification: a salary of 90000 at full time, 38 hours, paid
  fortnightly, tax year 2025-26, with private health insurance. The specification gives
  no dates; these are a pay day six weeks into the financial year.
\<close>

definition scenarioInputs :: inputState where
  "scenarioInputs =
     \<lparr>payFrequency = ''fortnightly'', payDate = ''2025-08-15'',
      periodEndDate = ''2025-08-14'', annualSalary = ''90000'',
      employmentStartDate = ''2020-01-06'', taxYear = ''2025-26'',
      fullTimeHours = ''38'', fte = ''1.0'', hasPrivateHealthInsurance = True\<rparr>"

section \<open>Auxiliary facts\<close>

lemmas parse_defs = parseFloat_def signedDecimal_def unsignedDecimal_def exponentPart_def
  isDigit_def isWhiteSpace_def digitsValue_def

lemmas table_defs = taxBrackets_def medicareLevyRate_def superRates_def
  medicareLevyThresholds_def mlsThresholds_def

lemma isFinite_iff: "isFinite x \<longleftrightarrow> (\<exists>a. x = Fin a)"
  by (cases x) simp_all

lemma positive_iff: "isFinite x \<and> jsLt (Fin 0) x \<longleftrightarrow> (\<exists>a. x = Fin a \<and> 0 < a)"
  by (cases x) simp_all

lemma getPayPeriodsPerYear_pos:
  "isFinite (getPayPeriodsPerYear frequency) \<and> jsLt (Fin 0) (getPayPeriodsPerYear frequency)"
  by (simp add: getPayPeriodsPerYear_def jsOr_def truthy_def)

lemma getPayPeriodDays_pos:
  "isFinite (getPayPeriodDays frequency) \<and> jsLt (Fin 0) (getPayPeriodDays frequency)"
  by (simp add: getPayPeriodDays_def jsOr_def truthy_def)

lemma calculateTax_Fin:
  "knownTaxYear year \<Longrightarrow> \<exists>t. calculateTax (Fin x) year = Inr t \<and> isFinite t"
  by (auto simp add: knownTaxYear_def calculateTax_def taxBrackets_def jsSub_def)

lemma calculateMedicareLevy_Fin:
  "knownTaxYear year \<Longrightarrow> \<exists>l. calculateMedicareLevy (Fin x) year = Inr l \<and> isFinite l"
  by (auto simp add: knownTaxYear_def calculateMedicareLevy_def table_defs jsSub_def toNumber_def Let_def)

lemma calculateMedicareLevySurcharge_Fin:
  "knownTaxYear year \<Longrightarrow> \<exists>s. calculateMedicareLevySurcharge (Fin x) year ins = Inr s \<and> isFinite s"
  by (auto simp add: knownTaxYear_def calculateMedicareLevySurcharge_def table_defs)

lemma superRate_Fin: "knownTaxYear year \<Longrightarrow> isFinite (toNumber (superRates year))"
  by (auto simp add: knownTaxYear_def superRates_def toNumber_def)

lemma jsOr_nonzero: "jsOr x (Fin d) = Fin f \<Longrightarrow> d \<noteq> 0 \<Longrightarrow> f \<noteq> 0"
  by (auto simp add: jsOr_def truthy_def split: if_splits)

lemma levy_value:
  "knownTaxYear year \<Longrightarrow>
   calculateMedicareLevy (Fin x) year =
     Inr (Fin (if x \<le> 27222 then 0
               else if x \<le> 34027 then x * 0.02 * (1 - (34027 - x) / (34027 - 27222))
               else x * 0.02))"
  by (auto simp add: knownTaxYear_def calculateMedicareLevy_def table_defs jsSub_def jsLe_def toNumber_def Let_def)

lemma taper_mono:
  fixes x y :: real
  assumes "27222 < x" "x \<le> y" "y \<le> 34027"
  shows "x * 0.02 * (1 - (34027 - x) / (34027 - 27222)) \<le> y * 0.02 * (1 - (34027 - y) / (34027 - 27222))"
proof -
  have e: "\<And>z::real. z * 0.02 * (1 - (34027 - z) / (34027 - 27222)) = z * (z - 27222) / 340250"
    by (simp add: field_simps)
  have "x * (x - 27222) \<le> y * (y - 27222)"
    using assms by (intro mult_mono) auto
  then show ?thesis unfolding e by (simp add: divide_right_mono)
qed

lemma taper_le_full:
  fixes x :: real
  assumes "27222 < x" "x \<le> 34027"
  shows "x * 0.02 * (1 - (34027 - x) / (34027 - 27222)) \<le> x * 0.02"
proof -
  have "0 \<le> (34027 - x) / (34027 - 27222)" using assms by simp
  then have "1 - (34027 - x) / (34027 - 27222) \<le> 1" by simp
  moreover have "0 \<le> x * 0.02" using assms by simp
  ultimately show ?thesis using mult_left_mono[of "1 - (34027 - x) / (34027 - 27222)" 1 "x * 0.02"] by simp
qed

lemma taper_nonneg:
  fixes x :: real
  assumes "27222 < x" "x \<le> 34027"
  shows "0 \<le> x * 0.02 * (1 - (34027 - x) / (34027 - 27222))"
proof -
  have "(34027 - x) / (34027 - 27222) \<le> 1" using assms by simp
  then have r: "0 \<le> 1 - (34027 - x) / (34027 - 27222)" by simp
  have "0 \<le> x * 0.02" using assms by simp
  then show ?thesis using r by (rule mult_nonneg_nonneg)
qed

lemma calculateTax_total:
  "knownTaxYear year \<Longrightarrow> \<exists>t. calculateTax x year = Inr t"
  by (auto simp add: knownTaxYear_def calculateTax_def taxBrackets_def)

lemma calculateMedicareLevy_total:
  "knownTaxYear year \<Longrightarrow> \<exists>l. calculateMedicareLevy x year = Inr l"
  by (auto simp add: knownTaxYear_def calculateMedicareLevy_def medicareLevyThresholds_def Let_def)

lemma calculateMedicareLevySurcharge_total:
  "knownTaxYear year \<Longrightarrow> \<exists>s. calculateMedicareLevySurcharge x year ins = Inr s"
  by (auto simp add: knownTaxYear_def calculateMedicareLevySurcharge_def mlsThresholds_def)

lemma validDates_daysDiff: "validDates h inputs \<Longrightarrow> isFinite (daysDiff h inputs)"
  by (auto simp add: validDates_def daysDiff_def Let_def isFinite_iff jsSub_def)

lemma calculateResults_valid:
  assumes "validInput inputs"
  shows "\<exists>a w f p d t l s q.
     parseFloat (annualSalary inputs) = Fin a
     \<and> jsOr (parseFloat (fullTimeHours inputs)) (Fin 38) = Fin w \<and> w \<noteq> 0
     \<and> jsOr (parseFloat (fte inputs)) (Fin 1) = Fin f \<and> f \<noteq> 0
     \<and> getPayPeriodsPerYear (payFrequency inputs) = Fin p \<and> 0 < p
     \<and> getPayPeriodDays (payFrequency inputs) = Fin d \<and> 0 < d
     \<and> calculateTax (Fin (a * f)) (taxYear inputs) = Inr (Fin t)
     \<and> calculateMedicareLevy (Fin (a * f)) (taxYear inputs) = Inr (Fin l)
     \<and> calculateMedicareLevySurcharge (Fin (a * f)) (taxYear inputs)
          (hasPrivateHealthInsurance inputs) = Inr (Fin s)
     \<and> toNumber (superRates (taxYear inputs)) = Fin q
     \<and> calculateResults h inputs results = Inr (Some
          \<lparr>grossPay = Fin (a * f / p),
           taxableIncome = Fin (a * f / p),
           tax = Fin (t / p),
           medicareLevy = Fin (l / p),
           medicareLevySurcharge = Fin (s / p),
           totalMedicareCharges = Fin ((l + s) / p),
           netIncome = Fin (a * f / p - t / p - (l + s) / p),
           superannuation = Fin (a * f / p * q),
           annualLeaveAccrual = Fin (d * 5 / 7 * (20 * f / 260.87) * (w / 5)),
           hoursWorked = Fin (w * f * d / 7),
           hourlyRate = Fin (a * f / (52.18 * w * f)),
           ytd = (let dd = daysDiff h inputs;
                      prop = jsDiv dd (Fin 365.25);
                      n = jsAdd (Math_floor (jsDiv dd (Fin d))) (Fin 1)
                  in \<lparr>ytd_gross = Math_min (jsMul (Fin (a * f / p)) n) (jsMul (Fin (a * f)) prop),
                      ytd_tax = Math_min (jsMul (Fin (t / p)) n) (jsMul (Fin t) prop),
                      ytd_medicareLevy = Math_min (jsMul (Fin (l / p)) n) (jsMul (Fin l) prop),
                      ytd_medicareLevySurcharge =
                        Math_min (jsMul (Fin (s / p)) n) (jsMul (Fin s) prop),
                      ytd_totalMedicareCharges =
                        Math_min (jsMul (Fin ((l + s) / p)) n) (jsMul (Fin (l + s)) prop),
                      ytd_net = Math_min (jsMul (Fin (a * f / p - t / p - (l + s) / p)) n)
                                  (jsSub (jsSub (jsMul (Fin (a * f)) prop) (jsMul (Fin t) prop))
                                         (jsMul (Fin (l + s)) prop)),
                      ytd_super = Math_min (jsMul (Fin (a * f / p * q)) n)
                                    (jsMul (jsMul (Fin (a * f)) prop) (Fin q))\<rparr>),
           periodsPerYear = Fin p,
           payPeriodDays = Fin d,
           periodsToDate = jsAdd (Math_floor (jsDiv (daysDiff h inputs) (Fin d))) (Fin 1),
           effectiveAnnualSalary = Fin (a * f),
           fte_res = Fin f\<rparr>)"
proof -
  from assms have c: "completeInput inputs" and k: "knownTaxYear (taxYear inputs)"
    by (simp_all add: validInput_def)
  from assms obtain a where a: "parseFloat (annualSalary inputs) = Fin a"
    by (auto simp add: validInput_def isFinite_iff)
  from assms obtain w where w: "jsOr (parseFloat (fullTimeHours inputs)) (Fin 38) = Fin w"
    by (auto simp add: validInput_def isFinite_iff)
  from assms obtain f where f: "jsOr (parseFloat (fte inputs)) (Fin 1) = Fin f"
    by (auto simp add: validInput_def isFinite_iff)
  have w0: "w \<noteq> 0" using jsOr_nonzero[OF w] by simp
  have f0: "f \<noteq> 0" using jsOr_nonzero[OF f] by simp
  obtain p where p: "getPayPeriodsPerYear (payFrequency inputs) = Fin p" "0 < p"
    using getPayPeriodsPerYear_pos[of "payFrequency inputs"] by (auto simp add: positive_iff)
  obtain d where d: "getPayPeriodDays (payFrequency inputs) = Fin d" "0 < d"
    using getPayPeriodDays_pos[of "payFrequency inputs"] by (auto simp add: positive_iff)
  obtain t where t: "calculateTax (Fin (a * f)) (taxYear inputs) = Inr (Fin t)"
    using calculateTax_Fin[OF k, of "a * f"] by (auto simp add: isFinite_iff)
  obtain l where l: "calculateMedicareLevy (Fin (a * f)) (taxYear inputs) = Inr (Fin l)"
    using calculateMedicareLevy_Fin[OF k, of "a * f"] by (auto simp add: isFinite_iff)
  obtain s where s: "calculateMedicareLevySurcharge (Fin (a * f)) (taxYear inputs)
          (hasPrivateHealthInsurance inputs) = Inr (Fin s)"
    using calculateMedicareLevySurcharge_Fin[OF k, of "a * f"] by (auto simp add: isFinite_iff)
  obtain q where q: "toNumber (superRates (taxYear inputs)) = Fin q"
    using superRate_Fin[OF k] by (auto simp add: isFinite_iff)
  have "calculateResults h inputs results = Inr (Some
          \<lparr>grossPay = Fin (a * f / p),
           taxableIncome = Fin (a * f / p),
           tax = Fin (t / p),
           medicareLevy = Fin (l / p),
           medicareLevySurcharge = Fin (s / p),
           totalMedicareCharges = Fin ((l + s) / p),
           netIncome = Fin (a * f / p - t / p - (l + s) / p),
           superannuation = Fin (a * f / p * q),
           annualLeaveAccrual = Fin (d * 5 / 7 * (20 * f / 260.87) * (w / 5)),
           hoursWorked = Fin (w * f * d / 7),
           hourlyRate = Fin (a * f / (52.18 * w * f)),
           ytd = (let dd = daysDiff h inputs;
                      prop = jsDiv dd (Fin 365.25);
                      n = jsAdd (Math_floor (jsDiv dd (Fin d))) (Fin 1)
                  in \<lparr>ytd_gross = Math_min (jsMul (Fin (a * f / p)) n) (jsMul (Fin (a * f)) prop),
                      ytd_tax = Math_min (jsMul (Fin (t / p)) n) (jsMul (Fin t) prop),
                      ytd_medicareLevy = Math_min (jsMul (Fin (l / p)) n) (jsMul (Fin l) prop),
                      ytd_medicareLevySurcharge =
                        Math_min (jsMul (Fin (s / p)) n) (jsMul (Fin s) prop),
                      ytd_totalMedicareCharges =
                        Math_min (jsMul (Fin ((l + s) / p)) n) (jsMul (Fin (l + s)) prop),
                      ytd_net = Math_min (jsMul (Fin (a * f / p - t / p - (l + s) / p)) n)
                                  (jsSub (jsSub (jsMul (Fin (a * f)) prop) (jsMul (Fin t) prop))
                                         (jsMul (Fin (l + s)) prop)),
                      ytd_super = Math_min (jsMul (Fin (a * f / p * q)) n)
                                    (jsMul (jsMul (Fin (a * f)) prop) (Fin q))\<rparr>),
           periodsPerYear = Fin p,
           payPeriodDays = Fin d,
           periodsToDate = jsAdd (Math_floor (jsDiv (daysDiff h inputs) (Fin d))) (Fin 1),
           effectiveAnnualSalary = Fin (a * f),
           fte_res = Fin f\<rparr>)"
    using c w0 f0 p(2) d(2)
    by (simp add: calculateResults_def completeInput_def Let_def a w f p(1) d(1) t l s q jsSub_def)
  with a w f w0 f0 p d t l s q show ?thesis by blast
qed


lemma jsSub_Fin: "jsSub (Fin x) (Fin y) = Fin (x - y)"
  by (simp add: jsSub_def)

lemma Math_min_Fin: "Math_min (Fin x) (Fin y) = Fin (min x y)"
  by (simp add: Math_min_def min_def)

lemma validInput_scenario: "validInput scenarioInputs"
  by (simp add: validInput_def completeInput_def knownTaxYear_def scenarioInputs_def
        parse_defs jsOr_def truthy_def)

lemma validDates_scenario: "validDates utcHost scenarioInputs"
  by (simp add: validDates_def scenarioInputs_def utcHost_def utc_newDate_def
        utc_newDateYMD_def mkCivil_def daysFromCivil_def daysBeforeMonth_def
        leapYearsUpTo_def daysInMonth_def isLeapYear_def toInteger_def isDigit_def
        digitsValue_def jsSub_def Let_def)

lemma daysDiff_scenario: "daysDiff utcHost scenarioInputs = Fin 45"
  by (simp add: daysDiff_def scenarioInputs_def utcHost_def utc_newDate_def
        utc_newDateYMD_def mkCivil_def daysFromCivil_def daysBeforeMonth_def
        leapYearsUpTo_def daysInMonth_def isLeapYear_def toInteger_def isDigit_def
        digitsValue_def jsSub_def jsGt_def Let_def)

lemma calculateResults_complete:
  assumes "completeInput inputs" and "knownTaxYear (taxYear inputs)"
  shows "\<exists>r t s. calculateResults h inputs results = Inr (Some r)
     \<and> fte_res r = jsOr (parseFloat (fte inputs)) (Fin 1)
     \<and> effectiveAnnualSalary r =
         jsMul (parseFloat (annualSalary inputs)) (jsOr (parseFloat (fte inputs)) (Fin 1))
     \<and> grossPay r = jsDiv (effectiveAnnualSalary r) (getPayPeriodsPerYear (payFrequency inputs))
     \<and> calculateTax (effectiveAnnualSalary r) (taxYear inputs) = Inr t
     \<and> tax r = jsDiv t (getPayPeriodsPerYear (payFrequency inputs))
     \<and> calculateMedicareLevySurcharge (effectiveAnnualSalary r) (taxYear inputs)
          (hasPrivateHealthInsurance inputs) = Inr s
     \<and> medicareLevySurcharge r = jsDiv s (getPayPeriodsPerYear (payFrequency inputs))
     \<and> hoursWorked r =
         jsDiv (jsMul (jsMul (jsOr (parseFloat (fullTimeHours inputs)) (Fin 38))
                             (jsOr (parseFloat (fte inputs)) (Fin 1)))
                      (getPayPeriodDays (payFrequency inputs))) (Fin 7)"
proof -
  let ?e = "jsMul (parseFloat (annualSalary inputs)) (jsOr (parseFloat (fte inputs)) (Fin 1))"
  obtain t where t: "calculateTax ?e (taxYear inputs) = Inr t"
    using calculateTax_total[OF assms(2)] by blast
  obtain l where l: "calculateMedicareLevy ?e (taxYear inputs) = Inr l"
    using calculateMedicareLevy_total[OF assms(2)] by blast
  obtain s where s: "calculateMedicareLevySurcharge ?e (taxYear inputs)
                       (hasPrivateHealthInsurance inputs) = Inr s"
    using calculateMedicareLevySurcharge_total[OF assms(2)] by blast
  show ?thesis
    using assms(1) by (simp add: calculateResults_def completeInput_def Let_def t l s)
qed

lemma parseFloat_90000: "parseFloat ''90000'' = Fin 90000"
  by (simp add: parse_defs)

lemma parseFloat_1_0: "parseFloat ''1.0'' = Fin 1"
  by (simp add: parse_defs)

lemma getPayPeriodsPerYear_fortnightly: "getPayPeriodsPerYear ''fortnightly'' = Fin 26.09"
  by (simp add: getPayPeriodsPerYear_def jsOr_def truthy_def)

lemma calculateTax_90000: "calculateTax (Fin 90000) ''2025-26'' = Inr (Fin 17788)"
  by (simp add: calculateTax_def taxBrackets_def jsGe_def jsLe_def jsSub_def)

lemma scenario_result:
  assumes "annualSalary inputs = ''90000''" and "fte inputs = ''1.0''"
    and "fullTimeHours inputs = ''38''" and "payFrequency inputs = ''fortnightly''"
    and "taxYear inputs = ''2025-26''" and "hasPrivateHealthInsurance inputs"
    and "payDate inputs \<noteq> []" and "periodEndDate inputs \<noteq> []"
    and "employmentStartDate inputs \<noteq> []"
  shows "\<exists>r. calculateResults h inputs results = Inr (Some r)
           \<and> effectiveAnnualSalary r = Fin 90000
           \<and> grossPay r = Fin (90000 / 26.09)
           \<and> tax r = Fin (17788 / 26.09)
           \<and> medicareLevySurcharge r = Fin 0"
proof -
  have c: "completeInput inputs"
    using assms by (simp add: completeInput_def)
  have k: "knownTaxYear (taxYear inputs)"
    using assms(5) by (simp add: knownTaxYear_def)
  have s: "\<And>x. calculateMedicareLevySurcharge x ''2025-26'' True = Inr (Fin 0)"
    by (simp add: calculateMedicareLevySurcharge_def)
  from calculateResults_complete[OF c k, of h results] show ?thesis
    using assms(6)
    by (auto simp add: assms(1-5) parseFloat_90000 parseFloat_1_0
          getPayPeriodsPerYear_fortnightly calculateTax_90000 s jsOr_def truthy_def)
qed

text \<open>
  The tax tables as the loop reads them: the tax is the formula of the first bracket that
  contains the income and 0 when none does; each table starts at 0, ends unbounded, and
  each bracket starts one dollar above the end of the one before; a whole-dollar income
  from 0 upwards is in exactly one bracket.
\<close>

lemma taxLoop_first_bracket:
  "taxLoop x bs =
     (case find (\<lambda>b. jsGe x (minB b) \<and> jsLe x (maxB b)) bs of
        None \<Rightarrow> Fin 0
      | Some b \<Rightarrow> jsAdd (offset b) (jsMul (jsAdd (jsSub x (minB b)) (Fin 1)) (rate b)))"
  by (induction bs) simp_all

lemma whole_dollar_income_in_one_bracket:
  assumes "taxBrackets year = Some bs" and "0 \<le> n"
  shows "length (filter (\<lambda>b. jsGe (Fin (of_int n)) (minB b) \<and> jsLe (Fin (of_int n)) (maxB b)) bs)
           = 1"
proof -
  have y: "year = ''2024-25'' \<or> year = ''2025-26''"
    using assms(1) by (auto simp add: taxBrackets_def split: if_splits)
  from y show ?thesis
  proof
    assume "year = ''2024-25''"
    with assms(1) have "bs = the (taxBrackets ''2024-25'')" by simp
    then show ?thesis using assms(2)
      by (simp add: taxBrackets_def jsGe_def jsLe_def)
  next
    assume "year = ''2025-26''"
    with assms(1) have "bs = the (taxBrackets ''2025-26'')" by simp
    then show ?thesis using assms(2)
      by (simp add: taxBrackets_def jsGe_def jsLe_def)
  qed
qed

lemma brackets_ascending:
  assumes "taxBrackets year = Some bs"
  shows "minB (hd bs) = Fin 0 \<and> maxB (last bs) = PosInf
         \<and> list_all (\<lambda>b. jsLt (minB b) (maxB b)) bs
         \<and> list_all (\<lambda>(b, c). minB c = jsAdd (maxB b) (Fin 1)) (zip bs (tl bs))"
  using assms by (auto simp add: taxBrackets_def split: if_splits)

section \<open>Properties\<close>

subsection \<open>FTE of zero\<close>

text \<open>
  C1 (the code departs from the claim). The claim is that an FTE of 0 gives an effective
  annual salary and hours worked of zero, without an error. The FTE field accepts values
  from 0 to 1, and the calculator scales the salary and the hours by it: at an FTE of
  \<open>0.01\<close> the scenario's salary of 90000 becomes 900 and its 76 hours become 0.76. At
  an FTE of \<open>0\<close> the parsed number 0 is falsy, \<open>||\<close> replaces it by 1.0, and the result is
  the full-time one: a salary of 90000 and 76 hours, with the FTE reported as 1.
\<close>

theorem zero_fte_salary_not_zero:
  "parseFloat (fte (scenarioInputs\<lparr>fte := ''0''\<rparr>)) = Fin 0
   \<and> field fte_res
        (calculateResults utcHost (scenarioInputs\<lparr>fte := ''0''\<rparr>) None) = Some (Fin 1)
   \<and> field effectiveAnnualSalary
        (calculateResults utcHost (scenarioInputs\<lparr>fte := ''0''\<rparr>) None) = Some (Fin 90000)
   \<and> field hoursWorked
        (calculateResults utcHost (scenarioInputs\<lparr>fte := ''0''\<rparr>) None) = Some (Fin 76)
   \<and> field effectiveAnnualSalary
        (calculateResults utcHost (scenarioInputs\<lparr>fte := ''0.01''\<rparr>) None) = Some (Fin 900)
   \<and> field hoursWorked
        (calculateResults utcHost (scenarioInputs\<lparr>fte := ''0.01''\<rparr>) None) = Some (Fin 0.76)"
proof -
  let ?i = "scenarioInputs\<lparr>fte := ''0''\<rparr>"
  let ?j = "scenarioInputs\<lparr>fte := ''0.01''\<rparr>"
  have c: "completeInput ?i" "completeInput ?j"
    by (simp_all add: completeInput_def scenarioInputs_def)
  have k: "knownTaxYear (taxYear ?i)" "knownTaxYear (taxYear ?j)"
    by (simp_all add: knownTaxYear_def scenarioInputs_def)
  have f: "parseFloat (fte ?i) = Fin 0" by (simp add: parse_defs)
  have g: "parseFloat (fte ?j) = Fin 0.01" by (simp add: parse_defs)
  have a: "parseFloat (annualSalary ?i) = Fin 90000" "parseFloat (annualSalary ?j) = Fin 90000"
    by (simp_all add: scenarioInputs_def parse_defs)
  have w: "parseFloat (fullTimeHours ?i) = Fin 38" "parseFloat (fullTimeHours ?j) = Fin 38"
    by (simp_all add: scenarioInputs_def parse_defs)
  have d: "getPayPeriodDays (payFrequency ?i) = Fin 14"
    "getPayPeriodDays (payFrequency ?j) = Fin 14"
    by (simp_all add: scenarioInputs_def getPayPeriodDays_def jsOr_def truthy_def)
  from calculateResults_complete[OF c(1) k(1), of utcHost None]
  have z: "field fte_res (calculateResults utcHost ?i None) = Some (Fin 1)
           \<and> field effectiveAnnualSalary (calculateResults utcHost ?i None) = Some (Fin 90000)
           \<and> field hoursWorked (calculateResults utcHost ?i None) = Some (Fin 76)"
    unfolding f a w d by (auto simp add: field_def jsOr_def truthy_def)
  from calculateResults_complete[OF c(2) k(2), of utcHost None]
  have "field effectiveAnnualSalary (calculateResults utcHost ?j None) = Some (Fin 900)
        \<and> field hoursWorked (calculateResults utcHost ?j None) = Some (Fin 0.76)"
    unfolding g a w d by (auto simp add: field_def jsOr_def truthy_def)
  with z f show ?thesis by blast
qed

subsection \<open>Incomplete input\<close>

text \<open>
  C2 (as stated, refuted). The claim is that an unparseable required field, like a
  missing one, leaves the result state untouched. With the salary field \<open>abc\<close>, which
  parses to \<open>NaN\<close>, and likewise with the pay date \<open>soon\<close>, which is an invalid date, the
  calculator replaces an empty result state by a result.
\<close>

theorem unparseable_field_produces_result:
  "parseFloat (annualSalary (scenarioInputs\<lparr>annualSalary := ''abc''\<rparr>)) = NaN
   \<and> calculateResults utcHost (scenarioInputs\<lparr>annualSalary := ''abc''\<rparr>) None \<noteq> Inr None
   \<and> field effectiveAnnualSalary
        (calculateResults utcHost (scenarioInputs\<lparr>annualSalary := ''abc''\<rparr>) None) = Some NaN
   \<and> getTime utcHost (newDate utcHost (payDate (scenarioInputs\<lparr>payDate := ''soon''\<rparr>))) = NaN
   \<and> calculateResults utcHost (scenarioInputs\<lparr>payDate := ''soon''\<rparr>) None \<noteq> Inr None"
proof -
  let ?i = "scenarioInputs\<lparr>annualSalary := ''abc''\<rparr>"
  let ?j = "scenarioInputs\<lparr>payDate := ''soon''\<rparr>"
  have ci: "completeInput ?i" and cj: "completeInput ?j"
    by (simp_all add: completeInput_def scenarioInputs_def)
  have ki: "knownTaxYear (taxYear ?i)" and kj: "knownTaxYear (taxYear ?j)"
    by (simp_all add: knownTaxYear_def scenarioInputs_def)
  have a: "parseFloat (annualSalary ?i) = NaN" by (simp add: parse_defs)
  have p: "getTime utcHost (newDate utcHost (payDate ?j)) = NaN"
    by (simp add: utcHost_def utc_newDate_def)
  from calculateResults_complete[OF ci ki, of utcHost None]
  have "calculateResults utcHost ?i None \<noteq> Inr None
        \<and> field effectiveAnnualSalary (calculateResults utcHost ?i None) = Some NaN"
    unfolding a by (auto simp add: field_def)
  moreover from calculateResults_complete[OF cj kj, of utcHost None]
  have "calculateResults utcHost ?j None \<noteq> Inr None" by auto
  ultimately show ?thesis using a p by blast
qed

text \<open>
  C2 (amended). For every input record in which a required field (annualSalary, payDate,
  periodEndDate, employmentStartDate) is missing, that is the empty string, the engine
  produces no result: the result state of the caller, a previous result or none, is
  returned unchanged, and nothing is thrown.
\<close>

theorem missing_field_keeps_results:
  assumes "annualSalary inputs = [] \<or> payDate inputs = [] \<or> periodEndDate inputs = []
           \<or> employmentStartDate inputs = []"
  shows "calculateResults h inputs results = Inr results"
  using assms by (simp add: calculateResults_def)

theorem missing_field_keeps_results_witness:
  "payDate (scenarioInputs\<lparr>payDate := []\<rparr>) = []
   \<and> calculateResults utcHost (scenarioInputs\<lparr>payDate := []\<rparr>) None = Inr None"
proof -
  have m: "annualSalary (scenarioInputs\<lparr>payDate := []\<rparr>) = []
           \<or> payDate (scenarioInputs\<lparr>payDate := []\<rparr>) = []
           \<or> periodEndDate (scenarioInputs\<lparr>payDate := []\<rparr>) = []
           \<or> employmentStartDate (scenarioInputs\<lparr>payDate := []\<rparr>) = []"
    by simp
  show ?thesis using missing_field_keeps_results [OF m, of utcHost None] by simp
qed

subsection \<open>Malformed numbers\<close>




subsection \<open>Tax brackets\<close>

text \<open>
  C4 (the code departs from the claim). The claim is that the brackets of a tax year are
  contiguous, every non-negative income lying in exactly one of them. The bounds of the
  tables are whole dollars and the test is \<open>min \<le> income \<le> max\<close>, so an income strictly
  between one bracket's \<open>max\<close> and the next bracket's \<open>min\<close> is in no bracket and the loop
  leaves the tax at 0. A salary of 90001 at an FTE of 0.5 is an effective salary of
  45000.5: the tax on 45000 is 4288, on 45001 it is 4288.30, and on 45000.5 it is 0.
\<close>

theorem fractional_income_between_brackets:
  "calculateTax (Fin 45000) ''2025-26'' = Inr (Fin 4288)
   \<and> calculateTax (Fin 45000.5) ''2025-26'' = Inr (Fin 0)
   \<and> calculateTax (Fin 45001) ''2025-26'' = Inr (Fin 4288.3)
   \<and> map_option (list_ex (\<lambda>b. jsGe (Fin 45000.5) (minB b) \<and> jsLe (Fin 45000.5) (maxB b)))
        (taxBrackets ''2025-26'') = Some False
   \<and> field effectiveAnnualSalary
        (calculateResults utcHost (scenarioInputs\<lparr>annualSalary := ''90001'', fte := ''0.5''\<rparr>) None)
       = Some (Fin 45000.5)
   \<and> field tax
        (calculateResults utcHost (scenarioInputs\<lparr>annualSalary := ''90001'', fte := ''0.5''\<rparr>) None)
       = Some (Fin 0)"
proof -
  let ?i = "scenarioInputs\<lparr>annualSalary := ''90001'', fte := ''0.5''\<rparr>"
  have c: "completeInput ?i" by (simp add: completeInput_def scenarioInputs_def)
  have k: "knownTaxYear (taxYear ?i)" by (simp add: knownTaxYear_def scenarioInputs_def)
  have y: "taxYear ?i = ''2025-26''" by (simp add: scenarioInputs_def)
  have q: "payFrequency ?i = ''fortnightly''" by (simp add: scenarioInputs_def)
  have a: "parseFloat (annualSalary ?i) = Fin 90001" by (simp add: parse_defs)
  have f: "jsOr (parseFloat (fte ?i)) (Fin 1) = Fin 0.5"
    by (simp add: parse_defs jsOr_def truthy_def)
  have t: "calculateTax (Fin 45000) ''2025-26'' = Inr (Fin 4288)
           \<and> calculateTax (Fin 45000.5) ''2025-26'' = Inr (Fin 0)
           \<and> calculateTax (Fin 45001) ''2025-26'' = Inr (Fin 4288.3)"
    by (simp add: calculateTax_def taxBrackets_def jsGe_def jsLe_def jsSub_def)
  have n: "map_option (list_ex (\<lambda>b. jsGe (Fin 45000.5) (minB b) \<and> jsLe (Fin 45000.5) (maxB b)))
             (taxBrackets ''2025-26'') = Some False"
    by (simp add: taxBrackets_def jsGe_def jsLe_def)
  have e: "jsMul (Fin 90001) (Fin 0.5) = Fin 45000.5" by simp
  from calculateResults_complete[OF c k, of utcHost None]
  have "field effectiveAnnualSalary (calculateResults utcHost ?i None) = Some (Fin 45000.5)
        \<and> field tax (calculateResults utcHost ?i None) = Some (Fin 0)"
    unfolding a f y q e getPayPeriodsPerYear_fortnightly using t
    by (auto simp add: field_def)
  with t n show ?thesis by blast
qed

subsection \<open>Medicare levy\<close>

text \<open>
  C5. For a fixed tax year of the tables, the annual Medicare levy is monotonically
  non-decreasing in the taxable income: for incomes \<open>x \<le> y\<close> the levy of \<open>x\<close> is at
  most the levy of \<open>y\<close>, across the lower threshold, the tapered band and the full-rate
  region. Both levies are finite numbers.
\<close>

theorem medicare_levy_monotone:
  assumes "knownTaxYear year" and "x \<le> y"
  shows "\<exists>a b. calculateMedicareLevy (Fin x) year = Inr (Fin a)
               \<and> calculateMedicareLevy (Fin y) year = Inr (Fin b) \<and> a \<le> b"
proof -
  let ?L = "\<lambda>z::real. if z \<le> 27222 then 0
               else if z \<le> 34027 then z * 0.02 * (1 - (34027 - z) / (34027 - 27222))
               else z * 0.02"
  have "?L x \<le> ?L y"
  proof (cases "x \<le> 27222")
    case True
    then show ?thesis using taper_nonneg[of y] by auto
  next
    case xl: False
    show ?thesis
    proof (cases "y \<le> 34027")
      case True
      then show ?thesis using xl assms(2) taper_mono[of x y] by auto
    next
      case yu: False
      show ?thesis
      proof (cases "x \<le> 34027")
        case True
        have "?L x \<le> x * 0.02" using xl True taper_le_full[of x] by simp
        also have "\<dots> \<le> y * 0.02" using assms(2) by simp
        also have "\<dots> = ?L y" using yu by simp
        finally show ?thesis .
      next
        case False
        then show ?thesis using yu assms(2) by simp
      qed
    qed
  qed
  then show ?thesis using levy_value[OF assms(1)] by blast
qed

theorem medicare_levy_monotone_witness:
  "knownTaxYear ''2025-26'' \<and> (30000::real) \<le> 40000
   \<and> (\<exists>a b. calculateMedicareLevy (Fin 30000) ''2025-26'' = Inr (Fin a)
              \<and> calculateMedicareLevy (Fin 40000) ''2025-26'' = Inr (Fin b) \<and> a \<le> b)"
proof -
  have k: "knownTaxYear ''2025-26''" by (simp add: knownTaxYear_def)
  have o: "(30000::real) \<le> 40000" by simp
  show ?thesis using k o medicare_levy_monotone [OF k o] by simp
qed

subsection \<open>Year-to-date figures\<close>

text \<open>
  C6. For every valid input with valid dates a result is produced, whose year-to-date
  fields are finite and bounded by the prorated annual ceilings: with the proportion
  \<open>elapsedDays / 365.25\<close> of the year, \<open>elapsedDays\<close> being the value of \<open>daysDiff\<close>, the
  year-to-date gross is at most the effective annual salary times the proportion, and
  the year-to-date tax, Medicare levy, surcharge, total Medicare charges, net and super
  are at most the annual tax, levy, surcharge, their sum, the annual net and the annual
  super times the proportion.
\<close>

theorem ytd_within_prorated_ceiling:
  assumes "validInput inputs" and "validDates h inputs"
  shows "\<exists>r salary annualTax annualLevy annualSurcharge superRate elapsedDays.
     calculateResults h inputs results = Inr (Some r)
     \<and> effectiveAnnualSalary r = Fin salary
     \<and> calculateTax (Fin salary) (taxYear inputs) = Inr (Fin annualTax)
     \<and> calculateMedicareLevy (Fin salary) (taxYear inputs) = Inr (Fin annualLevy)
     \<and> calculateMedicareLevySurcharge (Fin salary) (taxYear inputs)
          (hasPrivateHealthInsurance inputs) = Inr (Fin annualSurcharge)
     \<and> superRates (taxYear inputs) = Some (Fin superRate)
     \<and> daysDiff h inputs = Fin elapsedDays
     \<and> (\<exists>g t m s c n u.
           ytd r = \<lparr>ytd_gross = Fin g, ytd_tax = Fin t, ytd_medicareLevy = Fin m,
                    ytd_medicareLevySurcharge = Fin s, ytd_totalMedicareCharges = Fin c,
                    ytd_net = Fin n, ytd_super = Fin u\<rparr>
           \<and> g \<le> salary * (elapsedDays / 365.25)
           \<and> t \<le> annualTax * (elapsedDays / 365.25)
           \<and> m \<le> annualLevy * (elapsedDays / 365.25)
           \<and> s \<le> annualSurcharge * (elapsedDays / 365.25)
           \<and> c \<le> (annualLevy + annualSurcharge) * (elapsedDays / 365.25)
           \<and> n \<le> (salary - annualTax - (annualLevy + annualSurcharge)) * (elapsedDays / 365.25)
           \<and> u \<le> salary * superRate * (elapsedDays / 365.25))"
proof -
  obtain e where e: "daysDiff h inputs = Fin e"
    using validDates_daysDiff[OF assms(2)] by (auto simp add: isFinite_iff)
  from calculateResults_valid[OF assms(1), of h results]
  obtain a w f p d t l s q where
    p: "getPayPeriodsPerYear (payFrequency inputs) = Fin p" "0 < p"
    and d: "getPayPeriodDays (payFrequency inputs) = Fin d" "0 < d"
    and t: "calculateTax (Fin (a * f)) (taxYear inputs) = Inr (Fin t)"
    and l: "calculateMedicareLevy (Fin (a * f)) (taxYear inputs) = Inr (Fin l)"
    and s: "calculateMedicareLevySurcharge (Fin (a * f)) (taxYear inputs)
          (hasPrivateHealthInsurance inputs) = Inr (Fin s)"
    and q: "toNumber (superRates (taxYear inputs)) = Fin q"
    and r: "calculateResults h inputs results = Inr (Some
          \<lparr>grossPay = Fin (a * f / p),
           taxableIncome = Fin (a * f / p),
           tax = Fin (t / p),
           medicareLevy = Fin (l / p),
           medicareLevySurcharge = Fin (s / p),
           totalMedicareCharges = Fin ((l + s) / p),
           netIncome = Fin (a * f / p - t / p - (l + s) / p),
           superannuation = Fin (a * f / p * q),
           annualLeaveAccrual = Fin (d * 5 / 7 * (20 * f / 260.87) * (w / 5)),
           hoursWorked = Fin (w * f * d / 7),
           hourlyRate = Fin (a * f / (52.18 * w * f)),
           ytd = (let dd = daysDiff h inputs;
                      prop = jsDiv dd (Fin 365.25);
                      n = jsAdd (Math_floor (jsDiv dd (Fin d))) (Fin 1)
                  in \<lparr>ytd_gross = Math_min (jsMul (Fin (a * f / p)) n) (jsMul (Fin (a * f)) prop),
                      ytd_tax = Math_min (jsMul (Fin (t / p)) n) (jsMul (Fin t) prop),
                      ytd_medicareLevy = Math_min (jsMul (Fin (l / p)) n) (jsMul (Fin l) prop),
                      ytd_medicareLevySurcharge =
                        Math_min (jsMul (Fin (s / p)) n) (jsMul (Fin s) prop),
                      ytd_totalMedicareCharges =
                        Math_min (jsMul (Fin ((l + s) / p)) n) (jsMul (Fin (l + s)) prop),
                      ytd_net = Math_min (jsMul (Fin (a * f / p - t / p - (l + s) / p)) n)
                                  (jsSub (jsSub (jsMul (Fin (a * f)) prop) (jsMul (Fin t) prop))
                                         (jsMul (Fin (l + s)) prop)),
                      ytd_super = Math_min (jsMul (Fin (a * f / p * q)) n)
                                    (jsMul (jsMul (Fin (a * f)) prop) (Fin q))\<rparr>),
           periodsPerYear = Fin p,
           payPeriodDays = Fin d,
           periodsToDate = jsAdd (Math_floor (jsDiv (daysDiff h inputs) (Fin d))) (Fin 1),
           effectiveAnnualSalary = Fin (a * f),
           fte_res = Fin f\<rparr>)"
    by blast
  have sr: "superRates (taxYear inputs) = Some (Fin q)"
    using q by (simp add: toNumber_def split: option.splits)
  define pr where "pr = e / 365.25"
  define k where "k = real_of_int \<lfloor>e / d\<rfloor> + 1"
  have pr: "jsDiv (Fin e) (Fin 365.25) = Fin pr"
    by (simp add: pr_def)
  have k: "jsAdd (Math_floor (jsDiv (Fin e) (Fin d))) (Fin 1) = Fin k"
    using d(2) by (simp add: k_def)
  obtain r0 where r0: "calculateResults h inputs results = Inr (Some r0)"
    and sal: "effectiveAnnualSalary r0 = Fin (a * f)"
    and y: "ytd r0 =
       \<lparr>ytd_gross = Fin (min (a * f / p * k) (a * f * pr)),
        ytd_tax = Fin (min (t / p * k) (t * pr)),
        ytd_medicareLevy = Fin (min (l / p * k) (l * pr)),
        ytd_medicareLevySurcharge = Fin (min (s / p * k) (s * pr)),
        ytd_totalMedicareCharges = Fin (min ((l + s) / p * k) ((l + s) * pr)),
        ytd_net = Fin (min ((a * f / p - t / p - (l + s) / p) * k)
                           (a * f * pr - t * pr - (l + s) * pr)),
        ytd_super = Fin (min (a * f / p * q * k) (a * f * pr * q))\<rparr>"
    using r [unfolded e Let_def pr k jsMul.simps(1) jsSub_Fin Math_min_Fin] by fastforce
  have n: "a * f * pr - t * pr - (l + s) * pr = (a * f - t - (l + s)) * pr"
    by (simp add: algebra_simps)
  have u: "a * f * pr * q = a * f * q * pr"
    by simp
  have i1: "min (a * f / p * k) (a * f * pr) \<le> a * f * pr" by (rule min.cobounded2)
  have i2: "min (t / p * k) (t * pr) \<le> t * pr" by (rule min.cobounded2)
  have i3: "min (l / p * k) (l * pr) \<le> l * pr" by (rule min.cobounded2)
  have i4: "min (s / p * k) (s * pr) \<le> s * pr" by (rule min.cobounded2)
  have i5: "min ((l + s) / p * k) ((l + s) * pr) \<le> (l + s) * pr" by (rule min.cobounded2)
  have i6: "min ((a * f / p - t / p - (l + s) / p) * k) (a * f * pr - t * pr - (l + s) * pr)
             \<le> (a * f - t - (l + s)) * pr"
    unfolding n [symmetric] by (rule min.cobounded2)
  have i7: "min (a * f / p * q * k) (a * f * pr * q) \<le> a * f * q * pr"
    unfolding u [symmetric] by (rule min.cobounded2)
  show ?thesis
    using r0 sal t l s sr e y i1 i2 i3 i4 i5 i6 i7 unfolding pr_def by blast
qed

theorem ytd_within_prorated_ceiling_witness:
  "validInput scenarioInputs \<and> validDates utcHost scenarioInputs
   \<and> (\<exists>r g t. calculateResults utcHost scenarioInputs None = Inr (Some r)
          \<and> ytd_gross (ytd r) = Fin g \<and> g \<le> 90000 * (45 / 365.25)
          \<and> ytd_tax (ytd r) = Fin t \<and> t \<le> 17788 * (45 / 365.25))"
proof -
  from scenario_result[of scenarioInputs utcHost None]
  obtain r0 where r0: "calculateResults utcHost scenarioInputs None = Inr (Some r0)"
    and e0: "effectiveAnnualSalary r0 = Fin 90000"
    by (auto simp add: scenarioInputs_def)
  from ytd_within_prorated_ceiling [OF validInput_scenario validDates_scenario, of None]
  obtain r salary annualTax elapsedDays g t where
    r: "calculateResults utcHost scenarioInputs None = Inr (Some r)"
    and s: "effectiveAnnualSalary r = Fin salary"
    and x: "calculateTax (Fin salary) (taxYear scenarioInputs) = Inr (Fin annualTax)"
    and e: "daysDiff utcHost scenarioInputs = Fin elapsedDays"
    and g: "ytd_gross (ytd r) = Fin g" "g \<le> salary * (elapsedDays / 365.25)"
    and t: "ytd_tax (ytd r) = Fin t" "t \<le> annualTax * (elapsedDays / 365.25)"
    by fastforce
  have "r = r0" using r r0 by simp
  then have s': "salary = 90000" using s e0 by simp
  have e': "elapsedDays = 45" using e daysDiff_scenario by simp
  have y: "taxYear scenarioInputs = ''2025-26''" by (simp add: scenarioInputs_def)
  have x': "annualTax = 17788" using x calculateTax_90000 unfolding s' y by simp
  show ?thesis
    using validInput_scenario validDates_scenario r g t unfolding s' e' x' by blast
qed

subsection \<open>The scenario\<close>

text \<open>
  C7 (as stated, refuted). The claim gives the tax per period of the scenario as
  17788/26.09, about 681.72. The tax field of the result is 17788/26.09, and that number
  is more than 7 cents above 681.72 (it is 681.79 to the cent).
\<close>

theorem scenario_tax_per_period_not_681_72:
  "field tax (calculateResults utcHost scenarioInputs None) = Some (Fin (17788 / 26.09))
   \<and> (0.07::real) < 17788 / 26.09 - 681.72"
proof -
  from scenario_result[of scenarioInputs utcHost None]
  have "field tax (calculateResults utcHost scenarioInputs None) = Some (Fin (17788 / 26.09))"
    by (auto simp add: scenarioInputs_def field_def)
  moreover have "(0.07::real) < 17788 / 26.09 - 681.72" by simp
  ultimately show ?thesis by blast
qed

text \<open>
  C7 (amended). For the input annualSalary 90000, fte 1.0, fullTimeHours 38, fortnightly
  pay, tax year 2025-26, with private health insurance, and any non-empty dates, the
  engine applies the bracket 45001 to 135000 (rate 0.30, offset 4288): the annual tax is
  4288 + (90000 - 45001 + 1) * 0.30 = 17788, the gross pay per period is 90000/26.09
  (3449.59 to within a cent), the tax per period is 17788/26.09 (681.79 to within a
  cent), and the Medicare levy surcharge is 0.
\<close>

theorem scenario_90000_fortnightly:
  assumes "annualSalary inputs = ''90000''" and "fte inputs = ''1.0''"
    and "fullTimeHours inputs = ''38''" and "payFrequency inputs = ''fortnightly''"
    and "taxYear inputs = ''2025-26''" and "hasPrivateHealthInsurance inputs"
    and "payDate inputs \<noteq> []" and "periodEndDate inputs \<noteq> []"
    and "employmentStartDate inputs \<noteq> []"
  shows "map_option (find (\<lambda>b. jsGe (Fin 90000) (minB b) \<and> jsLe (Fin 90000) (maxB b)))
           (taxBrackets (taxYear inputs))
         = Some (Some \<lparr>minB = Fin 45001, maxB = Fin 135000, rate = Fin 0.30, offset = Fin 4288\<rparr>)
       \<and> calculateTax (Fin 90000) (taxYear inputs)
           = Inr (Fin (4288 + (90000 - 45001 + 1) * 0.30))
       \<and> (4288 + (90000 - 45001 + 1) * 0.30 = (17788::real))
       \<and> (\<exists>r. calculateResults h inputs results = Inr (Some r)
              \<and> effectiveAnnualSalary r = Fin 90000
              \<and> grossPay r = Fin (90000 / 26.09)
              \<and> tax r = Fin (17788 / 26.09)
              \<and> medicareLevySurcharge r = Fin 0)
       \<and> \<bar>90000 / 26.09 - 3449.59\<bar> < (0.01::real)
       \<and> \<bar>17788 / 26.09 - 681.79\<bar> < (0.01::real)"
proof -
  have b: "map_option (find (\<lambda>b. jsGe (Fin 90000) (minB b) \<and> jsLe (Fin 90000) (maxB b)))
             (taxBrackets (taxYear inputs))
           = Some (Some \<lparr>minB = Fin 45001, maxB = Fin 135000, rate = Fin 0.30,
                         offset = Fin 4288\<rparr>)"
    unfolding assms(5) by (simp add: taxBrackets_def jsGe_def jsLe_def)
  have t: "calculateTax (Fin 90000) (taxYear inputs)
             = Inr (Fin (4288 + (90000 - 45001 + 1) * 0.30))"
    unfolding assms(5) calculateTax_90000 by simp
  have n: "4288 + (90000 - 45001 + 1) * 0.30 = (17788::real)" by simp
  have g: "\<bar>90000 / 26.09 - 3449.59\<bar> < (0.01::real)" by simp
  have x: "\<bar>17788 / 26.09 - 681.79\<bar> < (0.01::real)" by simp
  from scenario_result[OF assms, of h results] b t n g x show ?thesis by blast
qed

theorem scenario_90000_fortnightly_witness:
  "annualSalary scenarioInputs = ''90000'' \<and> fte scenarioInputs = ''1.0''
   \<and> fullTimeHours scenarioInputs = ''38'' \<and> payFrequency scenarioInputs = ''fortnightly''
   \<and> taxYear scenarioInputs = ''2025-26'' \<and> hasPrivateHealthInsurance scenarioInputs
   \<and> payDate scenarioInputs \<noteq> [] \<and> periodEndDate scenarioInputs \<noteq> []
   \<and> employmentStartDate scenarioInputs \<noteq> []
   \<and> (\<exists>r. calculateResults utcHost scenarioInputs None = Inr (Some r)
          \<and> effectiveAnnualSalary r = Fin 90000
          \<and> grossPay r = Fin (90000 / 26.09)
          \<and> tax r = Fin (17788 / 26.09)
          \<and> medicareLevySurcharge r = Fin 0)"
proof -
  have h: "annualSalary scenarioInputs = ''90000''" "fte scenarioInputs = ''1.0''"
    "fullTimeHours scenarioInputs = ''38''" "payFrequency scenarioInputs = ''fortnightly''"
    "taxYear scenarioInputs = ''2025-26''" "hasPrivateHealthInsurance scenarioInputs"
    "payDate scenarioInputs \<noteq> []" "periodEndDate scenarioInputs \<noteq> []"
    "employmentStartDate scenarioInputs \<noteq> []"
    by (simp_all add: scenarioInputs_def)
  from scenario_90000_fortnightly [OF h, of utcHost None] h show ?thesis by blast
qed

subsection \<open>Private health insurance\<close>

text \<open>
  C8. If hasPrivateHealthInsurance is true then the Medicare levy surcharge is 0 for every
  taxable income and every tax year string: the annual figure returned by
  \<open>calculateMedicareLevySurcharge\<close>, and the per-period field of every result computed
  from a complete input.
\<close>

theorem insured_no_surcharge:
  assumes "hasPrivateHealthInsurance inputs"
  shows "calculateMedicareLevySurcharge income year (hasPrivateHealthInsurance inputs)
           = Inr (Fin 0)
         \<and> (\<forall>r. completeInput inputs \<longrightarrow> calculateResults h inputs results = Inr (Some r)
                \<longrightarrow> medicareLevySurcharge r = Fin 0)"
proof -
  obtain p where p: "getPayPeriodsPerYear (payFrequency inputs) = Fin p" "0 < p"
    using getPayPeriodsPerYear_pos[of "payFrequency inputs"] by (auto simp add: positive_iff)
  have s: "\<And>x y. calculateMedicareLevySurcharge x y (hasPrivateHealthInsurance inputs) = Inr (Fin 0)"
    using assms by (simp add: calculateMedicareLevySurcharge_def)
  have "medicareLevySurcharge r = Fin 0"
    if "completeInput inputs" "calculateResults h inputs results = Inr (Some r)" for r
    using that p(2)
    by (auto simp add: calculateResults_def completeInput_def Let_def s p(1) split: sum.splits)
  with s show ?thesis by blast
qed

theorem insured_no_surcharge_witness:
  "hasPrivateHealthInsurance (scenarioInputs\<lparr>annualSalary := ''200000''\<rparr>)
   \<and> completeInput (scenarioInputs\<lparr>annualSalary := ''200000''\<rparr>)
   \<and> calculateMedicareLevySurcharge (Fin 200000) ''2025-26''
        (hasPrivateHealthInsurance (scenarioInputs\<lparr>annualSalary := ''200000''\<rparr>)) = Inr (Fin 0)
   \<and> calculateMedicareLevySurcharge (Fin 200000) ''2025-26'' False = Inr (Fin 3000)
   \<and> field medicareLevySurcharge
        (calculateResults utcHost (scenarioInputs\<lparr>annualSalary := ''200000''\<rparr>) None)
       = Some (Fin 0)"
proof -
  let ?i = "scenarioInputs\<lparr>annualSalary := ''200000''\<rparr>"
  have i: "hasPrivateHealthInsurance ?i" by (simp add: scenarioInputs_def)
  have c: "completeInput ?i" by (simp add: completeInput_def scenarioInputs_def)
  have k: "knownTaxYear (taxYear ?i)" by (simp add: knownTaxYear_def scenarioInputs_def)
  have u: "calculateMedicareLevySurcharge (Fin 200000) ''2025-26'' False = Inr (Fin 3000)"
    by (simp add: calculateMedicareLevySurcharge_def mlsThresholds_def jsGe_def jsLe_def)
  obtain r where r: "calculateResults utcHost ?i None = Inr (Some r)"
    using calculateResults_complete[OF c k, of utcHost None] by blast
  from insured_no_surcharge [OF i, of "Fin 200000" "''2025-26''" utcHost None]
  have "calculateMedicareLevySurcharge (Fin 200000) ''2025-26'' (hasPrivateHealthInsurance ?i)
          = Inr (Fin 0)"
    and "medicareLevySurcharge r = Fin 0"
    using c r by blast+
  then show ?thesis using i c u r by (simp add: field_def)
qed

subsection \<open>Net income\<close>

text \<open>
  C9. For every valid input the result satisfies
  netIncome = grossPay - tax - totalMedicareCharges, where totalMedicareCharges is the sum
  of the per-period Medicare levy and Medicare levy surcharge; all five are finite.
\<close>

theorem net_income_identity:
  assumes "validInput inputs"
  shows "\<exists>r g t m s. calculateResults h inputs results = Inr (Some r)
           \<and> grossPay r = Fin g \<and> tax r = Fin t \<and> medicareLevy r = Fin m
           \<and> medicareLevySurcharge r = Fin s
           \<and> totalMedicareCharges r = Fin (m + s)
           \<and> netIncome r = Fin (g - t - (m + s))
           \<and> netIncome r = jsSub (jsSub (grossPay r) (tax r)) (totalMedicareCharges r)"
proof -
  from calculateResults_valid[OF assms, of h results]
  obtain a w f p d t l s q r where
    r: "calculateResults h inputs results = Inr (Some r)"
    and "grossPay r = Fin (a * f / p)" "tax r = Fin (t / p)" "medicareLevy r = Fin (l / p)"
      "medicareLevySurcharge r = Fin (s / p)" "totalMedicareCharges r = Fin ((l + s) / p)"
      "netIncome r = Fin (a * f / p - t / p - (l + s) / p)"
    by fastforce
  then show ?thesis by (simp add: add_divide_distrib jsSub_def)
qed

theorem net_income_identity_witness:
  "validInput scenarioInputs
   \<and> (\<exists>r g t m s. calculateResults utcHost scenarioInputs None = Inr (Some r)
           \<and> grossPay r = Fin g \<and> tax r = Fin t \<and> medicareLevy r = Fin m
           \<and> medicareLevySurcharge r = Fin s
           \<and> totalMedicareCharges r = Fin (m + s)
           \<and> netIncome r = Fin (g - t - (m + s)))"
  using validInput_scenario net_income_identity [OF validInput_scenario, of utcHost None]
  by blast

subsection \<open>Hourly rate\<close>

text \<open>
  C10. The hourly rate does not depend on the FTE: for every valid input whose fte and
  fullTimeHours parse to non-zero numbers,
  hourlyRate = effectiveAnnualSalary / (52.18 * fullTimeHours * fte)
             = annualSalary / (52.18 * fullTimeHours).
\<close>

theorem hourly_rate_independent_of_fte:
  assumes "validInput inputs"
    and "parseFloat (annualSalary inputs) = Fin a"
    and "parseFloat (fullTimeHours inputs) = Fin w" and "w \<noteq> 0"
    and "parseFloat (fte inputs) = Fin f" and "f \<noteq> 0"
  shows "\<exists>r. calculateResults h inputs results = Inr (Some r)
           \<and> effectiveAnnualSalary r = Fin (a * f)
           \<and> hourlyRate r = Fin (a * f / (52.18 * w * f))
           \<and> hourlyRate r = Fin (a / (52.18 * w))"
proof -
  have w: "jsOr (parseFloat (fullTimeHours inputs)) (Fin 38) = Fin w"
    using assms(3,4) by (simp add: jsOr_def truthy_def)
  have f: "jsOr (parseFloat (fte inputs)) (Fin 1) = Fin f"
    using assms(5,6) by (simp add: jsOr_def truthy_def)
  from calculateResults_valid[OF assms(1), of h results]
  obtain r where
    r: "calculateResults h inputs results = Inr (Some r)"
    and "effectiveAnnualSalary r = Fin (a * f)" "hourlyRate r = Fin (a * f / (52.18 * w * f))"
    using assms(2) w f by fastforce
  then show ?thesis using assms(6) by simp
qed

theorem hourly_rate_independent_of_fte_witness:
  "validInput (scenarioInputs\<lparr>fte := ''0.5''\<rparr>)
   \<and> parseFloat (annualSalary (scenarioInputs\<lparr>fte := ''0.5''\<rparr>)) = Fin 90000
   \<and> parseFloat (fullTimeHours (scenarioInputs\<lparr>fte := ''0.5''\<rparr>)) = Fin 38
   \<and> parseFloat (fte (scenarioInputs\<lparr>fte := ''0.5''\<rparr>)) = Fin 0.5
   \<and> (\<exists>r. calculateResults utcHost (scenarioInputs\<lparr>fte := ''0.5''\<rparr>) None = Inr (Some r)
          \<and> effectiveAnnualSalary r = Fin 45000
          \<and> hourlyRate r = Fin (90000 / (52.18 * 38)))"
proof -
  let ?i = "scenarioInputs\<lparr>fte := ''0.5''\<rparr>"
  have v: "validInput ?i"
    by (simp add: validInput_def completeInput_def knownTaxYear_def scenarioInputs_def
          parse_defs jsOr_def truthy_def)
  have a: "parseFloat (annualSalary ?i) = Fin 90000"
    by (simp add: scenarioInputs_def parse_defs)
  have w: "parseFloat (fullTimeHours ?i) = Fin 38"
    by (simp add: scenarioInputs_def parse_defs)
  have f: "parseFloat (fte ?i) = Fin 0.5" by (simp add: parse_defs)
  have nz: "(38::real) \<noteq> 0" "(0.5::real) \<noteq> 0" by simp_all
  from hourly_rate_independent_of_fte [OF v a w nz(1) f nz(2), of utcHost None]
  show ?thesis using v a w f by auto
qed

end
